theory Spec2Isabelle
  imports Main
begin

section \<open>TechNova function router: the \<open>/execute\<close> endpoint of \<open>main.py\<close>\<close>

text \<open>
  The endpoint takes the query parameter \<open>q\<close>, strips it, tries the five rules of
  \<open>PATTERNS\<close> in order with \<open>re.search\<close>, coerces the captured groups, and answers with
  \<open>build_response\<close>; a relaxed ticket pattern is tried when no rule matched.

  Python strings are sequences of code points. A \<open>char\<close> stands for a code point below
  256, so a \<open>string\<close> is a Python \<open>str\<close> over Latin-1; the character classes below are
  those of Python on that range. Code points from 256 on are outside this development.
\<close>

subsection \<open>Characters as Python classifies them\<close>

definition code :: "char \<Rightarrow> nat" where
  "code c = of_char c"

text \<open>\<open>str.isspace\<close>, which is also what \<open>str.strip()\<close> removes and what \<open>\s\<close> matches.\<close>

definition isspace :: "char \<Rightarrow> bool" where
  "isspace c = (code c \<in> {9, 10, 11, 12, 13, 28, 29, 30, 31, 32, 133, 160})"

text \<open>\<open>str.isdecimal\<close>, which is what \<open>\d\<close> matches.\<close>

definition isdecimal :: "char \<Rightarrow> bool" where
  "isdecimal c = (48 \<le> code c \<and> code c \<le> 57)"

text \<open>\<open>str.isalnum\<close> on code points below 256.\<close>

definition isalnum :: "char \<Rightarrow> bool" where
  "isalnum c = (let n = code c in
     (48 \<le> n \<and> n \<le> 57) \<or> (65 \<le> n \<and> n \<le> 90) \<or> (97 \<le> n \<and> n \<le> 122) \<or>
     n \<in> {170, 178, 179, 181, 185, 186, 188, 189, 190} \<or>
     (192 \<le> n \<and> n \<le> 214) \<or> (216 \<le> n \<and> n \<le> 246) \<or> (248 \<le> n \<and> n \<le> 255))"

text \<open>The word characters of \<open>\b\<close> and \<open>\w\<close>: alphanumerics and the underscore.\<close>

definition is_word :: "char \<Rightarrow> bool" where
  "is_word c = (isalnum c \<or> c = CHR ''_'')"

text \<open>\<open>str.lower\<close> of one character, the case folding of \<open>re.IGNORECASE\<close>.\<close>

definition lower :: "char \<Rightarrow> char" where
  "lower c = (let n = code c in
     if (65 \<le> n \<and> n \<le> 90) \<or> (192 \<le> n \<and> n \<le> 214) \<or> (216 \<le> n \<and> n \<le> 222)
     then char_of (n + 32) else c)"

text \<open>\<open>str.strip()\<close>: leading and trailing whitespace removed.\<close>

definition strip :: "string \<Rightarrow> string" where
  "strip s = rev (dropWhile isspace (rev (dropWhile isspace s)))"

subsection \<open>Regular expressions: the fragment of \<open>re\<close> that the patterns use\<close>

text \<open>
  Every pattern is compiled with \<open>re.IGNORECASE\<close>, so a literal character matches up to
  \<open>lower\<close>. \<open>Digit\<close> is \<open>\d\<close>, \<open>Space\<close> is \<open>\s\<close>, \<open>Dot\<close> is \<open>.\<close> (anything but a newline) and
  \<open>Range a b\<close> is the class \<open>[a-b]\<close>.
\<close>

datatype atom = Digit | Space | Dot | Range char char

fun atom_ok :: "atom \<Rightarrow> char \<Rightarrow> bool" where
  "atom_ok Digit c = isdecimal c"
| "atom_ok Space c = isspace c"
| "atom_ok Dot c = (c \<noteq> CHR 0x0A)"
| "atom_ok (Range a b) c = (code a \<le> code c \<and> code c \<le> code b)"

text \<open>
  \<open>Str l\<close> is a run of literal characters, \<open>WordB\<close> is \<open>\b\<close>, \<open>Eos\<close> is \<open>$\<close>,
  \<open>Rep a lo hi greedy\<close> is a repetition of one character class (\<open>a+\<close> is
  \<open>Rep a 1 None True\<close>, \<open>a+?\<close> is \<open>Rep a 1 None False\<close>, \<open>a{m,n}\<close> is
  \<open>Rep a m (Some n) True\<close>), \<open>Seq\<close> is concatenation, \<open>Alt\<close> is \<open>|\<close> and \<open>Grp\<close> is a capturing
  group.
\<close>

datatype regex =
    Str string
  | WordB
  | Eos
  | Rep atom nat "nat option" bool
  | Seq regex regex
  | Alt regex regex
  | Grp regex

fun ngroups :: "regex \<Rightarrow> nat" where
  "ngroups (Seq r1 r2) = ngroups r1 + ngroups r2"
| "ngroups (Alt r1 r2) = ngroups r1 + ngroups r2"
| "ngroups (Grp r) = Suc (ngroups r)"
| "ngroups _ = 0"

text \<open>
  \<open>\b\<close> holds where exactly one of the character before and the character after is a
  word character; outside the string counts as a non-word character.
\<close>

definition at_boundary :: "char option \<Rightarrow> string \<Rightarrow> bool" where
  "at_boundary prev s =
     ((case prev of None \<Rightarrow> False | Some c \<Rightarrow> is_word c) \<noteq>
      (case s of [] \<Rightarrow> False | c # _ \<Rightarrow> is_word c))"

definition last_char :: "char option \<Rightarrow> string \<Rightarrow> char option" where
  "last_char prev c = (if c = [] then prev else Some (last c))"

text \<open>
  The backtracking matcher as a list of successes. \<open>rmatch r prev s\<close> lists, in the order
  in which backtracking finds them, the ways \<open>r\<close> matches a prefix of \<open>s\<close> when \<open>prev\<close> is the
  character before \<open>s\<close>: the text consumed, the groups (\<open>None\<close> for a group that took no
  part) and the rest of the input. \<open>$\<close> without \<open>re.MULTILINE\<close> matches at the end and
  before a final newline.
\<close>

type_synonym mres = "string \<times> string option list \<times> string"

fun rmatch :: "regex \<Rightarrow> char option \<Rightarrow> string \<Rightarrow> mres list" where
  "rmatch (Str l) prev s =
     (if length l \<le> length s \<and> map lower (take (length l) s) = map lower l
      then [(take (length l) s, [], drop (length l) s)] else [])"
| "rmatch WordB prev s = (if at_boundary prev s then [([], [], s)] else [])"
| "rmatch Eos prev s = (if s = [] \<or> s = [CHR 0x0A] then [([], [], s)] else [])"
| "rmatch (Rep a lo hi greedy) prev s =
     (let k = length (takeWhile (atom_ok a) s);
          top = (case hi of None \<Rightarrow> k | Some h \<Rightarrow> min h k);
          ns = [lo ..< Suc top]
      in map (\<lambda>n. (take n s, [], drop n s)) (if greedy then rev ns else ns))"
| "rmatch (Seq r1 r2) prev s =
     concat (map (\<lambda>(c1, g1, s1).
                map (\<lambda>(c2, g2, s2). (c1 @ c2, g1 @ g2, s2)) (rmatch r2 (last_char prev c1) s1))
             (rmatch r1 prev s))"
| "rmatch (Alt r1 r2) prev s =
     map (\<lambda>(c, g, s'). (c, g @ replicate (ngroups r2) None, s')) (rmatch r1 prev s) @
     map (\<lambda>(c, g, s'). (c, replicate (ngroups r1) None @ g, s')) (rmatch r2 prev s)"
| "rmatch (Grp r) prev s = map (\<lambda>(c, g, s'). (c, Some c # g, s')) (rmatch r prev s)"

text \<open>
  \<open>pattern.search(text)\<close>: the first match at the leftmost position that has one;
  the result is \<open>m.groups()\<close>, and \<open>None\<close> when there is no match.
\<close>

fun search_from :: "regex \<Rightarrow> char option \<Rightarrow> string \<Rightarrow> string option list option" where
  "search_from r prev [] = (case rmatch r prev [] of [] \<Rightarrow> None | (c, g, s') # _ \<Rightarrow> Some g)"
| "search_from r prev (x # xs) =
     (case rmatch r prev (x # xs) of [] \<Rightarrow> search_from r (Some x) xs | (c, g, s') # _ \<Rightarrow> Some g)"

definition search :: "regex \<Rightarrow> string \<Rightarrow> string option list option" where
  "search r text = search_from r None text"

subsection \<open>The rule table\<close>

datatype argtype = TInt | TStr

record rule =
  name :: string
  pattern :: regex
  arg_keys :: "string list"
  arg_types :: "argtype list"

definition rep1 :: "atom \<Rightarrow> regex" where
  "rep1 a = Rep a 1 None True"

definition seqs :: "regex list \<Rightarrow> regex" where
  "seqs rs = foldr Seq rs (Str [])"

text \<open>\<open>\bstatus of ticket\s+(\d+)\b\<close>\<close>

definition ticket_pattern :: regex where
  "ticket_pattern =
     seqs [WordB, Str ''status of ticket'', rep1 Space, Grp (rep1 Digit), WordB]"

text \<open>
  \<open>\bschedule a meeting on\s+([0-9]{4}-[0-9]{2}-[0-9]{2})\s+at\s+([0-9]{1,2}:[0-9]{2})\s+in\s+(.+)$\<close>
\<close>

definition digits09 :: "nat \<Rightarrow> nat \<Rightarrow> regex" where
  "digits09 lo hi = Rep (Range CHR ''0'' CHR ''9'') lo (Some hi) True"

definition meeting_pattern :: regex where
  "meeting_pattern =
     seqs [WordB, Str ''schedule a meeting on'', rep1 Space,
           Grp (seqs [digits09 4 4, Str ''-'', digits09 2 2, Str ''-'', digits09 2 2]),
           rep1 Space, Str ''at'', rep1 Space,
           Grp (seqs [digits09 1 2, Str '':'', digits09 2 2]),
           rep1 Space, Str ''in'', rep1 Space,
           Grp (rep1 Dot), Eos]"

text \<open>\<open>\bexpense balance for employee\s+(\d+)\b\<close>\<close>

definition expense_pattern :: regex where
  "expense_pattern =
     seqs [WordB, Str ''expense balance for employee'', rep1 Space, Grp (rep1 Digit), WordB]"

text \<open>\<open>\bperformance bonus for employee\s+(\d+)\s+for\s+(\d{4})\b\<close>\<close>

definition bonus_pattern :: regex where
  "bonus_pattern =
     seqs [WordB, Str ''performance bonus for employee'', rep1 Space, Grp (rep1 Digit),
           rep1 Space, Str ''for'', rep1 Space, Grp (Rep Digit 4 (Some 4) True), WordB]"

text \<open>\<open>\breport (?:an |the )?office issue\s+(\d+)\s+for the\s+(.+?)\s+department\b\<close>\<close>

definition issue_pattern :: regex where
  "issue_pattern =
     seqs [WordB, Str ''report '', Alt (Alt (Str ''an '') (Str ''the '')) (Str []),
           Str ''office issue'', rep1 Space, Grp (rep1 Digit),
           rep1 Space, Str ''for the'', rep1 Space, Grp (Rep Dot 1 None False),
           rep1 Space, Str ''department'', WordB]"

definition PATTERNS :: "rule list" where
  "PATTERNS =
    [\<lparr>name = ''get_ticket_status'', pattern = ticket_pattern,
      arg_keys = [''ticket_id''], arg_types = [TInt]\<rparr>,
     \<lparr>name = ''schedule_meeting'', pattern = meeting_pattern,
      arg_keys = [''date'', ''time'', ''meeting_room''], arg_types = [TStr, TStr, TStr]\<rparr>,
     \<lparr>name = ''get_expense_balance'', pattern = expense_pattern,
      arg_keys = [''employee_id''], arg_types = [TInt]\<rparr>,
     \<lparr>name = ''calculate_performance_bonus'', pattern = bonus_pattern,
      arg_keys = [''employee_id'', ''current_year''], arg_types = [TInt, TInt]\<rparr>,
     \<lparr>name = ''report_office_issue'', pattern = issue_pattern,
      arg_keys = [''issue_code'', ''department''], arg_types = [TInt, TStr]\<rparr>]"

text \<open>The relaxed pattern of the fallback, \<open>ticket\s+(\d+)\<close>.\<close>

definition fallback_pattern :: regex where
  "fallback_pattern = seqs [Str ''ticket'', rep1 Space, Grp (rep1 Digit)]"

subsection \<open>\<open>int\<close> of a string\<close>

text \<open>
  \<open>int(s)\<close> for a string \<open>s\<close>: surrounding whitespace is ignored, a sign may lead, and the
  digits may be separated by single underscores; anything else raises \<open>ValueError\<close>
  (\<open>None\<close> here). CPython also raises \<open>ValueError\<close> when the text has more digits than
  \<open>sys.get_int_max_str_digits()\<close>, the parameter \<open>lim\<close>: 4300 unless the interpreter is
  configured otherwise, and 0 when the limit is switched off. Texts of at most 640 digits
  are never refused.
\<close>

fun valid_digits :: "string \<Rightarrow> bool" where
  "valid_digits [] = False"
| "valid_digits [c] = isdecimal c"
| "valid_digits (c # d # cs) =
     (isdecimal c \<and> (if d = CHR ''_'' then valid_digits cs else valid_digits (d # cs)))"

definition digit_val :: "char \<Rightarrow> nat" where
  "digit_val c = code c - 48"

definition digits_value :: "string \<Rightarrow> nat" where
  "digits_value ds = foldl (\<lambda>acc c. 10 * acc + digit_val c) 0 ds"

definition py_int :: "nat \<Rightarrow> string \<Rightarrow> int option" where
  "py_int lim s =
     (let t = strip s;
          neg = (t \<noteq> [] \<and> hd t = CHR ''-'');
          u = (if t \<noteq> [] \<and> (hd t = CHR ''-'' \<or> hd t = CHR ''+'') then tl t else t);
          ds = filter isdecimal u
      in if \<not> valid_digits u then None
         else if 640 < length ds \<and> 0 < lim \<and> lim < length ds then None
         else Some (if neg then - int (digits_value ds) else int (digits_value ds)))"

subsection \<open>\<open>json.dumps\<close> of the ordered arguments\<close>

datatype jvalue = JInt int | JStr string

type_synonym ordered_dict = "(string \<times> jvalue) list"

text \<open>\<open>ordered[key] = v\<close>: a new key goes to the end, a present key keeps its place.\<close>

fun od_set :: "ordered_dict \<Rightarrow> string \<Rightarrow> jvalue \<Rightarrow> ordered_dict" where
  "od_set [] key v = [(key, v)]"
| "od_set ((k, w) # rest) key v =
     (if k = key then (k, v) # rest else (k, w) # od_set rest key v)"

definition hex_digit :: "nat \<Rightarrow> char" where
  "hex_digit n = (if n < 10 then char_of (48 + n) else char_of (87 + n))"

text \<open>
  With \<open>ensure_ascii=False\<close> only the quote, the backslash and the control characters
  below \<open>0x20\<close> are escaped; every other character is written as it is.
\<close>

definition escape_char :: "char \<Rightarrow> string" where
  \<open>escape_char c =
     (if c = CHR ''"'' then [CHR 0x5C, CHR ''"'']
      else if c = CHR 0x5C then [CHR 0x5C, CHR 0x5C]
      else if c = CHR 0x0A then [CHR 0x5C, CHR ''n'']
      else if c = CHR 0x0D then [CHR 0x5C, CHR ''r'']
      else if c = CHR 0x09 then [CHR 0x5C, CHR ''t'']
      else if c = CHR 0x08 then [CHR 0x5C, CHR ''b'']
      else if c = CHR 0x0C then [CHR 0x5C, CHR ''f'']
      else if code c < 32
        then [CHR 0x5C, CHR ''u'', CHR ''0'', CHR ''0'',
              hex_digit (code c div 16), hex_digit (code c mod 16)]
      else [c])\<close>

definition dumps_str :: "string \<Rightarrow> string" where
  \<open>dumps_str s = [CHR ''"''] @ concat (map escape_char s) @ [CHR ''"'']\<close>

text \<open>The decimal digits of a natural number, as \<open>repr\<close> of an \<open>int\<close> writes them.\<close>

fun digits_of :: "nat \<Rightarrow> string" where
  "digits_of n = (if n < 10 then [char_of (48 + n)]
                  else digits_of (n div 10) @ [char_of (48 + n mod 10)])"

definition dumps_int :: "int \<Rightarrow> string" where
  "dumps_int i = (if i < 0 then CHR ''-'' # digits_of (nat (- i)) else digits_of (nat i))"

fun dumps_value :: "jvalue \<Rightarrow> string" where
  "dumps_value (JInt i) = dumps_int i"
| "dumps_value (JStr s) = dumps_str s"

fun join :: "string \<Rightarrow> string list \<Rightarrow> string" where
  "join sep [] = []"
| "join sep [x] = x"
| "join sep (x # y # ys) = x @ sep @ join sep (y # ys)"

definition dumps_item :: "string \<times> jvalue \<Rightarrow> string" where
  "dumps_item kv = dumps_str (fst kv) @ '': '' @ dumps_value (snd kv)"

definition json_dumps :: "ordered_dict \<Rightarrow> string" where
  "json_dumps od = ''{'' @ join '', '' (map dumps_item od) @ ''}''"

subsection \<open>The endpoint\<close>

record response =
  func_name :: string
  arguments :: string

definition build_response :: "string \<Rightarrow> ordered_dict \<Rightarrow> response" where
  "build_response fname ordered_args = \<lparr>func_name = fname, arguments = json_dumps ordered_args\<rparr>"

text \<open>
  An \<open>HTTPException\<close> carries its status code and detail. An exception that the handler
  does not catch leaves it and the framework answers 500.
\<close>

datatype exn = ValueError | TypeError | AttributeError | IndexError

datatype failure = HTTPException nat string | Uncaught exn

text \<open>
  The loop over \<open>zip(arg_keys, arg_types, groups)\<close>. A group that took no part in the
  match is \<open>None\<close>, on which \<open>int\<close> raises \<open>TypeError\<close> and \<open>.strip()\<close> raises
  \<open>AttributeError\<close>; neither is caught.
\<close>

fun coerce_args ::
  "nat \<Rightarrow> (string \<times> argtype \<times> string option) list \<Rightarrow> ordered_dict \<Rightarrow> failure + ordered_dict"
where
  "coerce_args lim [] ordered = Inr ordered"
| "coerce_args lim ((key, typ, val) # rest) ordered =
     (if typ = TInt then
        (case val of
           None \<Rightarrow> Inl (Uncaught TypeError)
         | Some v \<Rightarrow>
            (case py_int lim v of
               None \<Rightarrow> Inl (HTTPException 400 (''Invalid integer for '' @ key))
             | Some n \<Rightarrow> coerce_args lim rest (od_set ordered key (JInt n))))
      else
        (case val of
           None \<Rightarrow> Inl (Uncaught AttributeError)
         | Some v \<Rightarrow> coerce_args lim rest (od_set ordered key (JStr (strip v)))))"

text \<open>
  What the handler does once rule \<open>p\<close> has matched with \<open>m.groups() = groups\<close>: the
  group-count check, the coercions, and \<open>build_response\<close>.
\<close>

definition rule_result :: "nat \<Rightarrow> rule \<Rightarrow> string option list \<Rightarrow> failure + response" where
  "rule_result lim p groups =
     (if length groups \<noteq> length (arg_keys p)
      then Inl (HTTPException 500 ''Parsing error: group count mismatch'')
      else (case coerce_args lim (zip (arg_keys p) (zip (arg_types p) groups)) [] of
              Inl e \<Rightarrow> Inl e
            | Inr ordered \<Rightarrow> Inr (build_response (name p) ordered)))"

text \<open>
  The loop \<open>for p in PATTERNS\<close>: \<open>None\<close> when it ends without a match, otherwise what the
  first matching rule returns or raises.
\<close>

fun try_patterns :: "nat \<Rightarrow> rule list \<Rightarrow> string \<Rightarrow> (failure + response) option" where
  "try_patterns lim [] text = None"
| "try_patterns lim (p # ps) text =
     (case search (pattern p) text of
        None \<Rightarrow> try_patterns lim ps text
      | Some groups \<Rightarrow> Some (rule_result lim p groups))"

text \<open>
  The fallback: \<open>int(fallback_ticket.group(1))\<close> stands outside any \<open>try\<close>.
\<close>

definition fallback :: "nat \<Rightarrow> string \<Rightarrow> failure + response" where
  "fallback lim text =
     (case search fallback_pattern text of
        None \<Rightarrow> Inl (HTTPException 400
          ''Could not map query to any pre-defined function. Make sure the question follows one of the templated formats.'')
      | Some groups \<Rightarrow>
          (case groups of
             [] \<Rightarrow> Inl (Uncaught IndexError)
           | None # _ \<Rightarrow> Inl (Uncaught TypeError)
           | Some v # _ \<Rightarrow>
               (case py_int lim v of
                  None \<Rightarrow> Inl (Uncaught ValueError)
                | Some ticket_id \<Rightarrow>
                    Inr (build_response ''get_ticket_status'' [(''ticket_id'', JInt ticket_id)]))))"

text \<open>
  \<open>execute_with\<close> is \<open>execute\<close> with the rule table and the interpreter's digit limit as
  arguments; \<open>q\<close> is \<open>None\<close> when the request has no parameter \<open>q\<close>.
\<close>

definition execute_with :: "rule list \<Rightarrow> nat \<Rightarrow> string option \<Rightarrow> failure + response" where
  "execute_with table lim q =
     (case q of
        None \<Rightarrow> Inl (HTTPException 400 ''Missing query parameter q'')
      | Some s \<Rightarrow>
          if s = [] then Inl (HTTPException 400 ''Missing query parameter q'')
          else (let text = strip s in
                case try_patterns lim table text of
                  Some r \<Rightarrow> r
                | None \<Rightarrow> fallback lim text))"

definition execute :: "nat \<Rightarrow> string option \<Rightarrow> failure + response" where
  "execute lim q = execute_with PATTERNS lim q"

section \<open>Properties\<close>

subsection \<open>The matcher and the loop\<close>

lemma rmatch_ngroups: "(c, g, s') \<in> set (rmatch r prev s) \<Longrightarrow> length g = ngroups r"
  by (induction r arbitrary: c g s' prev s) (auto split: if_splits simp: Let_def)

lemma rmatch_split: "(c, g, s') \<in> set (rmatch r prev s) \<Longrightarrow> s = c @ s'"
  by (induction r arbitrary: c g s' prev s) (auto split: if_splits simp: Let_def)

lemma search_from_SomeD:
  "search_from r prev s = Some g \<Longrightarrow> \<exists>prev' s' c s''. (c, g, s'') \<in> set (rmatch r prev' s')"
proof (induction s arbitrary: prev)
  case Nil
  then show ?case by (auto split: list.splits) (metis list.set_intros(1))
next
  case (Cons x xs)
  show ?case
  proof (cases "rmatch r prev (x # xs)")
    case Nil
    with Cons show ?thesis by simp
  next
    case (Cons a as)
    with Cons.prems have "(fst a, g, snd (snd a)) \<in> set (rmatch r prev (x # xs))"
      by (cases a) auto
    then show ?thesis by blast
  qed
qed

lemma search_SomeD:
  "search r text = Some g \<Longrightarrow> \<exists>prev' s' c s''. (c, g, s'') \<in> set (rmatch r prev' s')"
  unfolding search_def by (rule search_from_SomeD)

lemma search_length: "search r text = Some g \<Longrightarrow> length g = ngroups r"
  by (auto dest!: search_SomeD rmatch_ngroups)

lemma try_patterns_None_iff:
  "try_patterns lim ps text = None \<longleftrightarrow> (\<forall>p\<in>set ps. search (pattern p) text = None)"
  by (induction ps) (auto split: option.splits)

lemma try_patterns_first:
  "\<forall>p\<in>set pre. search (pattern p) text = None \<Longrightarrow> search (pattern p) text = Some groups \<Longrightarrow>
   try_patterns lim (pre @ p # post) text = Some (rule_result lim p groups)"
  by (induction pre) auto

lemma try_patterns_SomeD:
  "try_patterns lim ps text = Some res \<Longrightarrow>
   \<exists>p\<in>set ps. \<exists>groups. search (pattern p) text = Some groups \<and> res = rule_result lim p groups"
  by (induction ps) (auto split: option.splits)

lemma coerce_args_error:
  "coerce_args lim kvs od = Inl e \<Longrightarrow>
   (\<exists>x. e = Uncaught x) \<or>
   (\<exists>k\<in>set (map fst kvs). e = HTTPException 400 (''Invalid integer for '' @ k))"
  by (induction lim kvs od rule: coerce_args.induct) (auto split: if_splits option.splits)

lemma fallback_error:
  "fallback lim text = Inl e \<Longrightarrow> (\<exists>x. e = Uncaught x) \<or> (\<exists>m. e = HTTPException 400 m)"
  by (auto simp: fallback_def split: option.splits list.splits)

lemma PATTERNS_ngroups:
  "map (\<lambda>p. ngroups (pattern p)) PATTERNS = map (\<lambda>p. length (arg_keys p)) PATTERNS"
  by (simp add: PATTERNS_def ticket_pattern_def meeting_pattern_def expense_pattern_def
      bonus_pattern_def issue_pattern_def seqs_def rep1_def digits09_def)

lemma PATTERNS_wf: "p \<in> set PATTERNS \<Longrightarrow> ngroups (pattern p) = length (arg_keys p)"
  using PATTERNS_ngroups by (auto simp: PATTERNS_def)

subsection \<open>The meeting scenario\<close>

text \<open>
  Claim C4. For the input \<open>Schedule a meeting on 2025-02-15 at 14:00 in Room A.\<close> the
  endpoint answers with the function \<open>schedule_meeting\<close> and the arguments string
  \<open>{"date": "2025-02-15", "time": "14:00", "meeting_room": "Room A."}\<close>, whatever the digit
  limit of the interpreter; the third group of the meeting pattern runs to the end of the
  text and so keeps the full stop.
\<close>

theorem meeting_scenario:
  \<open>execute lim (Some ''Schedule a meeting on 2025-02-15 at 14:00 in Room A.'') =
     Inr \<lparr>func_name = ''schedule_meeting'',
          arguments = ''{"date": "2025-02-15", "time": "14:00", "meeting_room": "Room A."}''\<rparr>
   \<and> search meeting_pattern ''Schedule a meeting on 2025-02-15 at 14:00 in Room A.'' =
     Some [Some ''2025-02-15'', Some ''14:00'', Some ''Room A.'']\<close>
  by code_simp

subsection \<open>Empty and blank queries\<close>

lemma strip_all_space: "list_all isspace s \<Longrightarrow> strip s = []"
proof -
  assume "list_all isspace s"
  then have d: "dropWhile isspace s = []" by (simp add: list_all_iff)
  show ?thesis unfolding strip_def d by simp
qed

lemma search_empty_all:
  "search ticket_pattern [] = None \<and> search meeting_pattern [] = None \<and>
   search expense_pattern [] = None \<and> search bonus_pattern [] = None \<and>
   search issue_pattern [] = None \<and> search fallback_pattern [] = None"
  by code_simp

lemmas search_empty = search_empty_all [THEN conjunct1]
  search_empty_all [THEN conjunct2, THEN conjunct1]
  search_empty_all [THEN conjunct2, THEN conjunct2, THEN conjunct1]
  search_empty_all [THEN conjunct2, THEN conjunct2, THEN conjunct2, THEN conjunct1]
  search_empty_all [THEN conjunct2, THEN conjunct2, THEN conjunct2, THEN conjunct2, THEN conjunct1]
  search_empty_all [THEN conjunct2, THEN conjunct2, THEN conjunct2, THEN conjunct2, THEN conjunct2]

lemma try_patterns_empty: "try_patterns lim PATTERNS [] = None"
  by (simp add: try_patterns_None_iff PATTERNS_def search_empty)

text \<open>
  Claim C2, as the specification states it, fails: \<open>if not q\<close> is tested before
  \<open>q.strip()\<close>, so a query of three spaces passes the test, is stripped to the empty text,
  matches nothing, and is answered with the message of the last \<open>raise\<close>, not with
  \<open>Missing query parameter q\<close>.
\<close>

theorem whitespace_query_not_empty_input:
  "execute 4300 (Some ''   '') = Inl (HTTPException 400
    ''Could not map query to any pre-defined function. Make sure the question follows one of the templated formats.'')
   \<and> execute 4300 (Some ''   '') \<noteq> Inl (HTTPException 400 ''Missing query parameter q'')"
  by code_simp

text \<open>
  Claim C2, amended. A missing or empty \<open>q\<close> is answered with status 400 and the detail
  \<open>Missing query parameter q\<close>. A non-empty \<open>q\<close> of whitespace only is answered with
  status 400 and the detail of the last \<open>raise\<close>. In neither case is a descriptor
  produced.
\<close>

theorem empty_or_blank_query:
  assumes "q = None \<or> (\<exists>s. q = Some s \<and> list_all isspace s)"
  shows "execute lim q = Inl (HTTPException 400
     (if q = None \<or> q = Some [] then ''Missing query parameter q''
      else ''Could not map query to any pre-defined function. Make sure the question follows one of the templated formats.''))"
proof (cases q)
  case None
  then show ?thesis by (simp add: execute_def execute_with_def)
next
  case (Some s)
  with assms have sp: "list_all isspace s" by simp
  show ?thesis
  proof (cases "s = []")
    case True
    with Some show ?thesis by (simp add: execute_def execute_with_def)
  next
    case False
    with Some sp show ?thesis
      by (simp add: execute_def execute_with_def strip_all_space try_patterns_empty
          fallback_def search_empty)
  qed
qed

theorem empty_or_blank_query_witness:
  "list_all isspace ''   '' \<and> execute 4300 (Some ''   '') = Inl (HTTPException 400
    ''Could not map query to any pre-defined function. Make sure the question follows one of the templated formats.'')
   \<and> execute 4300 (Some []) = Inl (HTTPException 400 ''Missing query parameter q'')
   \<and> execute 4300 None = Inl (HTTPException 400 ''Missing query parameter q'')"
proof -
  have 1: "list_all isspace ''   ''" by code_simp
  show ?thesis using empty_or_blank_query [of "Some ''   ''" 4300] empty_or_blank_query [of "Some []" 4300] empty_or_blank_query [of None 4300] 1
    by simp
qed

subsection \<open>No rule matched\<close>

text \<open>
  Claim C7. When the stripped query is not empty, no rule of the table matches it and the
  fallback pattern does not match it either, the endpoint answers with status 400 and the
  detail \<open>Could not map query to any pre-defined function. Make sure the question follows
  one of the templated formats.\<close>; the result is an error, so no descriptor is produced.
\<close>

theorem no_rule_matched:
  assumes "strip s \<noteq> []"
    and "\<forall>p\<in>set PATTERNS. search (pattern p) (strip s) = None"
    and "search fallback_pattern (strip s) = None"
  shows "execute lim (Some s) = Inl (HTTPException 400
    ''Could not map query to any pre-defined function. Make sure the question follows one of the templated formats.'')"
proof -
  from assms(1) have "s \<noteq> []" by (auto simp: strip_def)
  moreover from assms(2) have "try_patterns lim PATTERNS (strip s) = None"
    by (simp add: try_patterns_None_iff)
  ultimately show ?thesis using assms(3)
    by (simp add: execute_def execute_with_def fallback_def)
qed

theorem no_rule_matched_witness:
  "strip ''hello world'' \<noteq> [] \<and>
   list_all (\<lambda>p. search (pattern p) (strip ''hello world'') = None) PATTERNS \<and>
   search fallback_pattern (strip ''hello world'') = None \<and>
   execute 4300 (Some ''hello world'') = Inl (HTTPException 400
    ''Could not map query to any pre-defined function. Make sure the question follows one of the templated formats.'')"
proof -
  have 1: "strip ''hello world'' \<noteq> []" by code_simp
  have 2: "list_all (\<lambda>p. search (pattern p) (strip ''hello world'') = None) PATTERNS" by code_simp
  have 3: "search fallback_pattern (strip ''hello world'') = None" by code_simp
  from 2 have b2: "\<forall>p\<in>set PATTERNS. search (pattern p) (strip ''hello world'') = None"
    by (simp add: list_all_iff)
  show ?thesis using no_rule_matched [OF 1 b2 3, of 4300] 1 2 3 by simp
qed

subsection \<open>The group-count check\<close>

text \<open>The check is part of the model: a rule whose pattern has no group but one key fails it.\<close>

lemma mismatch_reachable:
  "execute_with [\<lparr>name = ''f'', pattern = Str ''a'', arg_keys = [''k''], arg_types = [TStr]\<rparr>]
     lim (Some ''a'') = Inl (HTTPException 500 ''Parsing error: group count mismatch'')"
  by code_simp

text \<open>
  Claim C9. Each of the five rules has as many capture groups in its pattern as it has
  parameter names; so every successful match of a rule yields exactly that many groups, and
  the endpoint never answers with status 500 and
  \<open>Parsing error: group count mismatch\<close>.
\<close>

theorem group_count_mismatch_unreachable:
  "(\<forall>p\<in>set PATTERNS. ngroups (pattern p) = length (arg_keys p)) \<and>
   (\<forall>p\<in>set PATTERNS. \<forall>text groups.
       search (pattern p) text = Some groups \<longrightarrow> length groups = length (arg_keys p)) \<and>
   (\<forall>lim q. execute lim q \<noteq> Inl (HTTPException 500 ''Parsing error: group count mismatch''))"
proof (intro conjI ballI allI impI)
  fix p assume "p \<in> set PATTERNS"
  then show "ngroups (pattern p) = length (arg_keys p)" by (rule PATTERNS_wf)
next
  fix p t groups
  assume "p \<in> set PATTERNS" "search (pattern p) t = Some groups"
  then show "length groups = length (arg_keys p)"
    using search_length [of "pattern p" t groups] PATTERNS_wf [of p] by simp
next
  fix lim q
  show "execute lim q \<noteq> Inl (HTTPException 500 ''Parsing error: group count mismatch'')"
  proof
    assume a: "execute lim q = Inl (HTTPException 500 ''Parsing error: group count mismatch'')"
    then obtain s where q: "q = Some s" "s \<noteq> []"
      by (auto simp: execute_def execute_with_def split: option.splits if_splits)
    show False
    proof (cases "try_patterns lim PATTERNS (strip s)")
      case None
      with a q have "fallback lim (strip s) =
          Inl (HTTPException 500 ''Parsing error: group count mismatch'')"
        by (simp add: execute_def execute_with_def)
      then show False by (auto dest: fallback_error)
    next
      case (Some r)
      with a q have r: "r = Inl (HTTPException 500 ''Parsing error: group count mismatch'')"
        by (simp add: execute_def execute_with_def)
      from try_patterns_SomeD [OF Some] obtain p groups where
        p: "p \<in> set PATTERNS" "search (pattern p) (strip s) = Some groups"
           "r = rule_result lim p groups"
        by blast
      have len: "length groups = length (arg_keys p)"
        using search_length [OF p(2)] PATTERNS_wf [OF p(1)] by simp
      with r p(3) show False
        by (auto simp: rule_result_def split: sum.splits dest!: coerce_args_error)
    qed
  qed
qed

lemma in_PATTERNS_1: "PATTERNS ! 1 \<in> set PATTERNS" by (simp add: PATTERNS_def)

theorem group_count_mismatch_unreachable_witness:
  "PATTERNS ! 1 \<in> set PATTERNS \<and>
   search (pattern (PATTERNS ! 1)) ''schedule a meeting on 2025-02-15 at 14:00 in Room A'' =
     Some [Some ''2025-02-15'', Some ''14:00'', Some ''Room A''] \<and>
   ngroups (pattern (PATTERNS ! 1)) = length (arg_keys (PATTERNS ! 1)) \<and>
   length [Some ''2025-02-15'', Some ''14:00'', Some ''Room A''] = length (arg_keys (PATTERNS ! 1))"
proof -
  have s: "search (pattern (PATTERNS ! 1)) ''schedule a meeting on 2025-02-15 at 14:00 in Room A'' =
     Some [Some ''2025-02-15'', Some ''14:00'', Some ''Room A'']" by code_simp
  show ?thesis using group_count_mismatch_unreachable in_PATTERNS_1 s by blast
qed

end
